theory Spec2Isabelle
  imports Main "HOL-Library.Word"
begin

section \<open>The control plane of protocol/api/api.go\<close>

text \<open>
  The embedding follows \<^verbatim>\<open>src/protocol/api/api.go\<close>. A handler of the source takes the
  server, a response writer and a request, mutates the server and the collaborators it
  calls, and writes one response through the deferred \<^verbatim>\<open>SendJson\<close>. Here a handler is a
  function from the state before the request to the response written and the state after.
\<close>

subsection \<open>Requests and responses\<close>

text \<open>
  \<^verbatim>\<open>http.Request\<close>, as far as the handlers read it: the values of the authorization
  header (empty when the header is absent) and the outcome of \<^verbatim>\<open>ParseForm\<close>
  (\<open>None\<close> when it returns an error, otherwise the parsed \<^verbatim>\<open>url.Values\<close>).
\<close>

type_synonym Values = "string \<rightharpoonup> string list"

record Request =
  authorization :: "string list"
  ParseForm :: "Values option"

text \<open>\<^verbatim>\<open>url.Values.Get\<close> and \<^verbatim>\<open>http.Header.Get\<close>: the first value, or the empty string.\<close>

definition Get :: "Values \<Rightarrow> string \<Rightarrow> string" where
  "Get v key = (case v key of None \<Rightarrow> [] | Some [] \<Rightarrow> [] | Some (x # _) \<Rightarrow> x)"

definition Header_Get_authorization :: "Request \<Rightarrow> string" where
  "Header_Get_authorization r = (case authorization r of [] \<Rightarrow> [] | x # _ \<Rightarrow> x)"

text \<open>The statistics entry \<^verbatim>\<open>stream\<close> and the pair of collections \<^verbatim>\<open>streams\<close>.\<close>

record stream =
  Key :: string
  Url :: string
  StreamId :: "32 word"
  VideoTotalBytes :: "64 word"
  VideoSpeed :: "64 word"
  AudioTotalBytes :: "64 word"
  AudioSpeed :: "64 word"

record streams =
  Publishers :: "stream list"
  Players :: "stream list"

text \<open>
  \<^verbatim>\<open>Response\<close>: the status and the payload (\<^verbatim>\<open>interface{}\<close> in the source: nil, a string,
  one \<^verbatim>\<open>stream\<close> or a pointer to \<^verbatim>\<open>streams\<close>). The writer field is the channel the
  response leaves through and is not part of the value.
\<close>

datatype data = Null | Str string | OneStream stream | Streams streams

record Response =
  Status :: int
  Data :: data

subsection \<open>Relay workers\<close>

text \<open>
  Modelled from the spec: package \<^verbatim>\<open>rtmprelay\<close> is not among the sources. Its factory
  \<^verbatim>\<open>NewRtmpRelay\<close> takes the source (play) URL first and the target (publish) URL second
  and returns a pointer to a fresh worker; \<^verbatim>\<open>Start\<close> may fail with an error, \<^verbatim>\<open>Stop\<close>
  returns nothing. Workers live in a store indexed by their address, so that two workers
  built from equal URLs are still two handles.
\<close>

record RtmpRelay =
  PlayUrl :: string
  PublishUrl :: string

type_synonym relay_ptr = nat

subsection \<open>Streams of the RTMP engine\<close>

text \<open>
  Modelled from the spec: package \<^verbatim>\<open>rtmp\<close> is not among the sources. The handlers use a
  stream registry (a \<^verbatim>\<open>sync.Map\<close>, here the list of its entries in the order \<^verbatim>\<open>Range\<close>
  visits them), the reader of a stream, its set of writers, and the bandwidth counters
  that only the virtual reader and the virtual writer carry. A value that a type
  assertion or type switch of the source tells apart is a constructor here.
\<close>

record StaticsBW =
  StreamId_bw :: "32 word"
  VideoDatainBytes :: "64 word"
  VideoSpeedInBytesperMS :: "64 word"
  AudioDatainBytes :: "64 word"
  AudioSpeedInBytesperMS :: "64 word"

record VirReader =
  reader_Info_URL :: string
  ReadBWInfo :: StaticsBW

record VirWriter =
  writer_Info_URL :: string
  WriteBWInfo :: StaticsBW

datatype ReadCloser = IsVirReader VirReader | OtherReadCloser

datatype WriteCloser = IsVirWriter VirWriter | OtherWriteCloser

datatype ws_value = IsPackWriterCloser "WriteCloser option" | OtherWsValue

record Stream =
  GetReader :: "ReadCloser option"
  GetWs :: "(string \<times> ws_value) list"

datatype streams_value = IsStream Stream | OtherStreamsValue

record RtmpStream =
  GetStreams :: "(string \<times> streams_value) list"

definition GetStream :: "RtmpStream \<Rightarrow> string \<Rightarrow> Stream option" where
  "GetStream rs key =
     (case map_of (GetStreams rs) key of
        Some (IsStream s) \<Rightarrow> Some s
      | _ \<Rightarrow> None)"

text \<open>
  \<^verbatim>\<open>av.Handler\<close>, the interface value the server holds: a pointer to an
  \<^verbatim>\<open>rtmp.RtmpStream\<close> (possibly nil), or anything else (a value of another type, or
  no value), on which the single-value type assertion of the handlers panics.
\<close>

datatype Handler = IsRtmpStream "RtmpStream option" | OtherHandler

subsection \<open>The server and what surrounds it\<close>

text \<open>Calls that reach a collaborator and return nothing the handler reads.\<close>

datatype call =
    RelayStart relay_ptr
  | RelayStop relay_ptr
  | TransStop string
  | CloseAndComplete string

record Server =
  handler :: Handler
  session :: "string \<rightharpoonup> relay_ptr"
  rtmpAddr :: string

text \<open>
  The server together with the collaborators a request can touch: the store of relay
  workers, the room keys of \<^verbatim>\<open>configure.RoomKeys\<close> and the trace of calls made.
\<close>

record world = Server +
  relays :: "RtmpRelay list"
  roomKeys :: "string \<rightharpoonup> string"
  calls :: "call list"

text \<open>
  What the absent collaborators answer: the error of \<^verbatim>\<open>RtmpRelay.Start\<close> (\<open>None\<close> for
  nil) and the three operations of the room-key store, each from the store before the
  call to its answer and the store after.
\<close>

record env =
  Start :: "relay_ptr \<Rightarrow> RtmpRelay \<Rightarrow> string option"
  SetKey :: "(string \<rightharpoonup> string) \<Rightarrow> string \<Rightarrow> (string + string) \<times> (string \<rightharpoonup> string)"
  GetKey :: "(string \<rightharpoonup> string) \<Rightarrow> string \<Rightarrow> (string + string) \<times> (string \<rightharpoonup> string)"
  DeleteChannel :: "(string \<rightharpoonup> string) \<Rightarrow> string \<Rightarrow> bool \<times> (string \<rightharpoonup> string)"

definition NewServer :: "Handler \<Rightarrow> string \<Rightarrow> Server" where
  "NewServer h addr = \<lparr>handler = h, session = Map.empty, rtmpAddr = addr\<rparr>"

definition NewRtmpRelay :: "string \<Rightarrow> string \<Rightarrow> world \<Rightarrow> relay_ptr \<times> world" where
  "NewRtmpRelay playurl publishurl s =
     (length (relays s),
      s\<lparr>relays := relays s @ [\<lparr>PlayUrl = playurl, PublishUrl = publishurl\<rparr>]\<rparr>)"

subsection \<open>Push and pull\<close>

text \<open>
  Both handlers start from status 200 and no payload; each branch below gives the
  status and payload that the deferred \<^verbatim>\<open>SendJson\<close> finally writes. A call of
  \<^verbatim>\<open>Start\<close> or \<^verbatim>\<open>Stop\<close> is appended to the trace.
\<close>

definition handlePush :: "env \<Rightarrow> world \<Rightarrow> Request \<Rightarrow> Response \<times> world" where
  "handlePush e s req =
     (case ParseForm req of
        None \<Rightarrow>
          (\<lparr>Status = 200,
            Data = Str ''url: /control/push?&oper=start&app=live&name=123456&url=rtmp://192.168.16.136/live/123456''\<rparr>, s)
      | Some form \<Rightarrow>
          let oper = Get form ''oper'';
              app = Get form ''app'';
              name = Get form ''name'';
              url = Get form ''url''
          in if length app \<le> 0 \<or> length name \<le> 0 \<or> length url \<le> 0
             then (\<lparr>Status = 200, Data = Str ''control push parameter error, please check them.''\<rparr>, s)
             else
               let localurl = ''rtmp://127.0.0.1'' @ rtmpAddr s @ ''/'' @ app @ ''/'' @ name;
                   remoteurl = url;
                   keyString = ''push:'' @ app @ ''/'' @ name
               in if oper = ''stop''
                  then (case session s keyString of
                          None \<Rightarrow>
                            (\<lparr>Status = 200,
                              Data = Str (''<h1>session key['' @ keyString @ ''] not exist, please check it again.</h1>'')\<rparr>, s)
                        | Some pushRtmprelay \<Rightarrow>
                            (\<lparr>Status = 200, Data = Str (''<h1>push url stop '' @ url @ '' ok</h1></br>'')\<rparr>,
                             s\<lparr>session := (session s)(keyString := None),
                               calls := calls s @ [RelayStop pushRtmprelay]\<rparr>))
                  else (case NewRtmpRelay localurl remoteurl s of
                          (pushRtmprelay, s1) \<Rightarrow>
                            let s2 = s1\<lparr>calls := calls s1 @ [RelayStart pushRtmprelay]\<rparr>
                            in (case Start e pushRtmprelay (relays s2 ! pushRtmprelay) of
                                  Some err \<Rightarrow> (\<lparr>Status = 200, Data = Str (''push error='' @ err)\<rparr>, s2)
                                | None \<Rightarrow>
                                    (\<lparr>Status = 200, Data = Str (''<h1>push url start '' @ url @ '' ok</h1></br>'')\<rparr>,
                                     s2\<lparr>session := (session s2)(keyString \<mapsto> pushRtmprelay)\<rparr>))))"

definition handlePull :: "env \<Rightarrow> world \<Rightarrow> Request \<Rightarrow> Response \<times> world" where
  "handlePull e s req =
     (case ParseForm req of
        None \<Rightarrow>
          (\<lparr>Status = 400,
            Data = Str ''url: /control/pull?&oper=start&app=live&name=123456&url=rtmp://192.168.16.136/live/123456''\<rparr>, s)
      | Some form \<Rightarrow>
          let oper = Get form ''oper'';
              app = Get form ''app'';
              name = Get form ''name'';
              url = Get form ''url''
          in if length app \<le> 0 \<or> length name \<le> 0 \<or> length url \<le> 0
             then (\<lparr>Status = 400, Data = Str ''control push parameter error, please check them.''\<rparr>, s)
             else
               let remoteurl = ''rtmp://127.0.0.1'' @ rtmpAddr s @ ''/'' @ app @ ''/'' @ name;
                   localurl = url;
                   keyString = ''pull:'' @ app @ ''/'' @ name
               in if oper = ''stop''
                  then (case session s keyString of
                          None \<Rightarrow>
                            (\<lparr>Status = 400,
                              Data = Str (''session key['' @ keyString @ ''] not exist, please check it again.'')\<rparr>, s)
                        | Some pullRtmprelay \<Rightarrow>
                            (\<lparr>Status = 400, Data = Str (''<h1>push url stop '' @ url @ '' ok</h1></br>'')\<rparr>,
                             s\<lparr>session := (session s)(keyString := None),
                               calls := calls s @ [RelayStop pullRtmprelay]\<rparr>))
                  else (case NewRtmpRelay localurl remoteurl s of
                          (pullRtmprelay, s1) \<Rightarrow>
                            let s2 = s1\<lparr>calls := calls s1 @ [RelayStart pullRtmprelay]\<rparr>
                            in (case Start e pullRtmprelay (relays s2 ! pullRtmprelay) of
                                  Some err \<Rightarrow> (\<lparr>Status = 400, Data = Str (''push error='' @ err)\<rparr>, s2)
                                | None \<Rightarrow>
                                    (\<lparr>Status = 400, Data = Str (''<h1>push url start '' @ url @ '' ok</h1></br>'')\<rparr>,
                                     s2\<lparr>session := (session s2)(keyString \<mapsto> pullRtmprelay)\<rparr>))))"

subsection \<open>Room keys\<close>

text \<open>A failed single-value type assertion panics; the handler then writes no result.\<close>

datatype panic = TypeAssertion

definition handleReset :: "env \<Rightarrow> world \<Rightarrow> Request \<Rightarrow> Response \<times> world" where
  "handleReset e s r =
     (case ParseForm r of
        None \<Rightarrow> (\<lparr>Status = 400, Data = Str ''url: /control/reset?room=<ROOM_NAME>''\<rparr>, s)
      | Some form \<Rightarrow>
          let room = Get form ''room''
          in if length room = 0
             then (\<lparr>Status = 400, Data = Str ''url: /control/reset?room=<ROOM_NAME>''\<rparr>, s)
             else (case SetKey e (roomKeys s) room of
                     (Inl err, keys) \<Rightarrow> (\<lparr>Status = 400, Data = Str err\<rparr>, s\<lparr>roomKeys := keys\<rparr>)
                   | (Inr msg, keys) \<Rightarrow> (\<lparr>Status = 200, Data = Str msg\<rparr>, s\<lparr>roomKeys := keys\<rparr>)))"

definition handleGet :: "env \<Rightarrow> world \<Rightarrow> Request \<Rightarrow> Response \<times> world" where
  "handleGet e s r =
     (case ParseForm r of
        None \<Rightarrow> (\<lparr>Status = 400, Data = Str ''url: /control/get?room=<ROOM_NAME>''\<rparr>, s)
      | Some form \<Rightarrow>
          let room = Get form ''room''
          in if length room = 0
             then (\<lparr>Status = 400, Data = Str ''url: /control/get?room=<ROOM_NAME>''\<rparr>, s)
             else (case GetKey e (roomKeys s) room of
                     (Inl err, keys) \<Rightarrow> (\<lparr>Status = 400, Data = Str err\<rparr>, s\<lparr>roomKeys := keys\<rparr>)
                   | (Inr msg, keys) \<Rightarrow> (\<lparr>Status = 200, Data = Str msg\<rparr>, s\<lparr>roomKeys := keys\<rparr>)))"

definition handleDelete :: "env \<Rightarrow> world \<Rightarrow> Request \<Rightarrow> panic + Response \<times> world" where
  "handleDelete e s r =
     (case ParseForm r of
        None \<Rightarrow> Inr (\<lparr>Status = 400, Data = Str ''url: /control/delete?room=<ROOM_NAME>''\<rparr>, s)
      | Some form \<Rightarrow>
          let room = Get form ''room''
          in if length room = 0
             then Inr (\<lparr>Status = 400, Data = Str ''url: /control/delete?room=<ROOM_NAME>''\<rparr>, s)
             else (case handler s of
                     OtherHandler \<Rightarrow> Inl TypeAssertion
                   | IsRtmpStream None \<Rightarrow>
                       Inr (\<lparr>Status = 500, Data = Str ''Get rtmp stream information error''\<rparr>, s)
                   | IsRtmpStream (Some rtmpStream) \<Rightarrow>
                       let key = ''live/'' @ room
                       in (case GetStream rtmpStream key of
                             None \<Rightarrow> Inr (\<lparr>Status = 404, Data = Str ''No room was found''\<rparr>, s)
                           | Some st \<Rightarrow>
                               let s1 = s\<lparr>calls := calls s @ [TransStop key, CloseAndComplete key]\<rparr>
                               in (case DeleteChannel e (roomKeys s1) room of
                                     (True, keys) \<Rightarrow>
                                       Inr (\<lparr>Status = 200, Data = Str ''Ok''\<rparr>, s1\<lparr>roomKeys := keys\<rparr>)
                                   | (False, keys) \<Rightarrow>
                                       Inr (\<lparr>Status = 404, Data = Str ''room not found''\<rparr>, s1\<lparr>roomKeys := keys\<rparr>)))))"

subsection \<open>Statistics\<close>

definition GetLiveStat :: "world \<Rightarrow> Request \<Rightarrow> panic + Response" where
  "GetLiveStat s req =
     (case handler s of
        OtherHandler \<Rightarrow> Inl TypeAssertion
      | IsRtmpStream None \<Rightarrow> Inr \<lparr>Status = 500, Data = Str ''Get rtmp stream information error''\<rparr>
      | IsRtmpStream (Some rtmpStream) \<Rightarrow>
          (case ParseForm req of
             None \<Rightarrow> Inr \<lparr>Status = 500, Data = Str ''Failed to parse form''\<rparr>
           | Some form \<Rightarrow>
               let room = Get form ''room'';
                   key = ''live/'' @ room
               in (case GetStream rtmpStream key of
                     None \<Rightarrow> Inr \<lparr>Status = 404, Data = Str ''No room was found''\<rparr>
                   | Some st \<Rightarrow>
                       (case GetReader st of
                          None \<Rightarrow> Inr \<lparr>Status = 500, Data = Str ''This room has no readers''\<rparr>
                        | Some (IsVirReader v) \<Rightarrow>
                            Inr \<lparr>Status = 200,
                                 Data = OneStream
                                   \<lparr>Key = key,
                                    Url = reader_Info_URL v,
                                    StreamId = StreamId_bw (ReadBWInfo v),
                                    VideoTotalBytes = VideoDatainBytes (ReadBWInfo v),
                                    VideoSpeed = VideoSpeedInBytesperMS (ReadBWInfo v),
                                    AudioTotalBytes = AudioDatainBytes (ReadBWInfo v),
                                    AudioSpeed = AudioSpeedInBytesperMS (ReadBWInfo v)\<rparr>\<rparr>
                        | Some OtherReadCloser \<Rightarrow>
                            Inr \<lparr>Status = 500,
                                 Data = Str ''Reader returned by RTMP stream was not virtual reader.''\<rparr>))))"

text \<open>
  The two \<^verbatim>\<open>Range\<close> loops of \<^verbatim>\<open>GetLiveStatics\<close>. Every callback returns true, so each
  loop visits all entries; the second argument is the slice appended to so far. The
  first loop tests its type assertion, the second one does not and panics.
\<close>

fun Range_publishers :: "(string \<times> streams_value) list \<Rightarrow> stream list \<Rightarrow> stream list" where
  "Range_publishers [] msgs = msgs"
| "Range_publishers ((key, val) # rest) msgs =
     (case val of
        IsStream s \<Rightarrow>
          (case GetReader s of
             None \<Rightarrow> Range_publishers rest msgs
           | Some (IsVirReader v) \<Rightarrow>
               Range_publishers rest
                 (msgs @ [\<lparr>Key = key,
                           Url = reader_Info_URL v,
                           StreamId = StreamId_bw (ReadBWInfo v),
                           VideoTotalBytes = VideoDatainBytes (ReadBWInfo v),
                           VideoSpeed = VideoSpeedInBytesperMS (ReadBWInfo v),
                           AudioTotalBytes = AudioDatainBytes (ReadBWInfo v),
                           AudioSpeed = AudioSpeedInBytesperMS (ReadBWInfo v)\<rparr>])
           | Some OtherReadCloser \<Rightarrow> Range_publishers rest msgs)
      | OtherStreamsValue \<Rightarrow> Range_publishers rest msgs)"

fun Range_ws :: "string \<Rightarrow> (string \<times> ws_value) list \<Rightarrow> stream list \<Rightarrow> stream list" where
  "Range_ws key [] msgs = msgs"
| "Range_ws key ((k, v) # rest) msgs =
     (case v of
        IsPackWriterCloser pw \<Rightarrow>
          (case pw of
             None \<Rightarrow> Range_ws key rest msgs
           | Some (IsVirWriter w) \<Rightarrow>
               Range_ws key rest
                 (msgs @ [\<lparr>Key = key,
                           Url = writer_Info_URL w,
                           StreamId = StreamId_bw (WriteBWInfo w),
                           VideoTotalBytes = VideoDatainBytes (WriteBWInfo w),
                           VideoSpeed = VideoSpeedInBytesperMS (WriteBWInfo w),
                           AudioTotalBytes = AudioDatainBytes (WriteBWInfo w),
                           AudioSpeed = AudioSpeedInBytesperMS (WriteBWInfo w)\<rparr>])
           | Some OtherWriteCloser \<Rightarrow> Range_ws key rest msgs)
      | OtherWsValue \<Rightarrow> Range_ws key rest msgs)"

fun Range_players :: "(string \<times> streams_value) list \<Rightarrow> stream list \<Rightarrow> panic + stream list" where
  "Range_players [] msgs = Inr msgs"
| "Range_players ((key, val) # rest) msgs =
     (case val of
        IsStream s \<Rightarrow> Range_players rest (Range_ws key (GetWs s) msgs)
      | OtherStreamsValue \<Rightarrow> Inl TypeAssertion)"

definition GetLiveStatics :: "world \<Rightarrow> Request \<Rightarrow> panic + Response" where
  "GetLiveStatics s req =
     (case handler s of
        OtherHandler \<Rightarrow> Inl TypeAssertion
      | IsRtmpStream None \<Rightarrow> Inr \<lparr>Status = 500, Data = Str ''Get rtmp stream information error''\<rparr>
      | IsRtmpStream (Some rtmpStream) \<Rightarrow>
          let publishers = Range_publishers (GetStreams rtmpStream) []
          in (case Range_players (GetStreams rtmpStream) [] of
                Inl p \<Rightarrow> Inl p
              | Inr players \<Rightarrow>
                  Inr \<lparr>Status = 200, Data = Streams \<lparr>Publishers = publishers, Players = players\<rparr>\<rparr>))"

subsection \<open>The static key gate and the routes\<close>

text \<open>
  \<^verbatim>\<open>checkAuth\<close> returns true after writing the 401 response, false without writing
  anything: here \<open>Some\<close> of the response written, or \<open>None\<close>.
\<close>

definition checkAuth :: "string \<Rightarrow> Request \<Rightarrow> Response option" where
  "checkAuth expectedKey r =
     (if Header_Get_authorization r \<noteq> expectedKey
      then Some \<lparr>Status = 401, Data = Str ''Unauthorized''\<rparr>
      else None)"

text \<open>The control and statistics patterns that \<^verbatim>\<open>Serve\<close> registers on its mux.\<close>

datatype route =
    ControlPush | ControlPull | ControlGet | ControlReset | ControlDelete
  | StatsLivestats | StatsLivestat

text \<open>
  The handler that the closure registered for a route calls once the gate is passed.
  \<open>Serve\<close> below is that closure: the gate, then the handler. The optional bearer-token
  layer of \<^verbatim>\<open>JWTMiddleware\<close> wraps the whole mux from outside and comes before both.
\<close>

definition route_handler :: "env \<Rightarrow> route \<Rightarrow> world \<Rightarrow> Request \<Rightarrow> panic + Response \<times> world" where
  "route_handler e rt s r =
     (case rt of
        ControlPush \<Rightarrow> Inr (handlePush e s r)
      | ControlPull \<Rightarrow> Inr (handlePull e s r)
      | ControlGet \<Rightarrow> Inr (handleGet e s r)
      | ControlReset \<Rightarrow> Inr (handleReset e s r)
      | ControlDelete \<Rightarrow> handleDelete e s r
      | StatsLivestats \<Rightarrow> map_sum id (\<lambda>res. (res, s)) (GetLiveStatics s r)
      | StatsLivestat \<Rightarrow> map_sum id (\<lambda>res. (res, s)) (GetLiveStat s r))"

definition Serve :: "env \<Rightarrow> string \<Rightarrow> route \<Rightarrow> world \<Rightarrow> Request \<Rightarrow> panic + Response \<times> world" where
  "Serve e apiKey rt s r =
     (case checkAuth apiKey r of
        Some res \<Rightarrow> Inr (res, s)
      | None \<Rightarrow> route_handler e rt s r)"

subsection \<open>The entries the statistics are expected to hold\<close>

text \<open>
  The entry for a stream key and a virtual reader, and the entry for a stream key and a
  virtual writer: the key, the URL of the endpoint and its five bandwidth counters.
\<close>

definition publisher_entry :: "string \<Rightarrow> VirReader \<Rightarrow> stream" where
  "publisher_entry key v =
     \<lparr>Key = key, Url = reader_Info_URL v, StreamId = StreamId_bw (ReadBWInfo v),
      VideoTotalBytes = VideoDatainBytes (ReadBWInfo v),
      VideoSpeed = VideoSpeedInBytesperMS (ReadBWInfo v),
      AudioTotalBytes = AudioDatainBytes (ReadBWInfo v),
      AudioSpeed = AudioSpeedInBytesperMS (ReadBWInfo v)\<rparr>"

definition player_entry :: "string \<Rightarrow> VirWriter \<Rightarrow> stream" where
  "player_entry key w =
     \<lparr>Key = key, Url = writer_Info_URL w, StreamId = StreamId_bw (WriteBWInfo w),
      VideoTotalBytes = VideoDatainBytes (WriteBWInfo w),
      VideoSpeed = VideoSpeedInBytesperMS (WriteBWInfo w),
      AudioTotalBytes = AudioDatainBytes (WriteBWInfo w),
      AudioSpeed = AudioSpeedInBytesperMS (WriteBWInfo w)\<rparr>"

subsection \<open>Concrete requests, collaborators and servers\<close>

text \<open>
  The request \<^verbatim>\<open>?oper=..&app=..&name=..&url=..\<close> without an authorization header, a
  collaborator whose relay workers always start, one whose workers never start, and a
  server on \<^verbatim>\<open>:1935\<close> with three streams: room1 with a virtual reader and three writers
  (one virtual, one of another kind, one absent), room2 without a reader, room3 with a
  reader of another kind.
\<close>

definition control_request :: "string \<Rightarrow> string \<Rightarrow> string \<Rightarrow> string \<Rightarrow> Request" where
  "control_request oper app name url =
     \<lparr>authorization = [],
      ParseForm = Some [''oper'' \<mapsto> [oper], ''app'' \<mapsto> [app], ''name'' \<mapsto> [name], ''url'' \<mapsto> [url]]\<rparr>"

definition room_request :: "string \<Rightarrow> Request" where
  "room_request room = \<lparr>authorization = [], ParseForm = Some [''room'' \<mapsto> [room]]\<rparr>"

definition example_env :: env where
  "example_env =
     \<lparr>Start = (\<lambda>p r. None),
      SetKey = (\<lambda>keys room. (Inr ''k1'', keys(room \<mapsto> ''k1''))),
      GetKey = (\<lambda>keys room. (case keys room of None \<Rightarrow> Inl ''room does not exist'' | Some k \<Rightarrow> Inr k, keys)),
      DeleteChannel = (\<lambda>keys room. (keys room \<noteq> None, keys(room := None)))\<rparr>"

definition failing_env :: env where
  "failing_env = example_env\<lparr>Start := (\<lambda>p r. Some ''connection refused'')\<rparr>"

definition example_reader :: VirReader where
  "example_reader =
     \<lparr>reader_Info_URL = ''rtmp://127.0.0.1:1935/live/room1'',
      ReadBWInfo = \<lparr>StreamId_bw = 1, VideoDatainBytes = 4096, VideoSpeedInBytesperMS = 12,
                    AudioDatainBytes = 512, AudioSpeedInBytesperMS = 3\<rparr>\<rparr>"

definition example_writer :: VirWriter where
  "example_writer =
     \<lparr>writer_Info_URL = ''rtmp://127.0.0.1:1935/live/room1'',
      WriteBWInfo = \<lparr>StreamId_bw = 2, VideoDatainBytes = 2048, VideoSpeedInBytesperMS = 10,
                     AudioDatainBytes = 256, AudioSpeedInBytesperMS = 2\<rparr>\<rparr>"

definition example_streams :: RtmpStream where
  "example_streams =
     \<lparr>GetStreams =
        [(''live/room1'',
          IsStream \<lparr>GetReader = Some (IsVirReader example_reader),
                    GetWs = [(''w1'', IsPackWriterCloser (Some (IsVirWriter example_writer))),
                             (''w2'', IsPackWriterCloser (Some OtherWriteCloser)),
                             (''w3'', IsPackWriterCloser None),
                             (''w4'', OtherWsValue)]\<rparr>),
         (''live/room2'', IsStream \<lparr>GetReader = None, GetWs = []\<rparr>),
         (''live/room3'', IsStream \<lparr>GetReader = Some OtherReadCloser, GetWs = []\<rparr>)]\<rparr>"

definition example_world :: world where
  "example_world =
     \<lparr>handler = IsRtmpStream (Some example_streams),
      session = Map.empty,
      rtmpAddr = '':1935'',
      relays = [],
      roomKeys = Map.empty,
      calls = []\<rparr>"

text \<open>The same server with a push and a pull relay already registered for live/room1.\<close>

definition active_world :: world where
  "active_world =
     example_world
       \<lparr>session := [''push:live/room1'' \<mapsto> 0, ''pull:live/room1'' \<mapsto> 1],
        relays := [\<lparr>PlayUrl = ''rtmp://127.0.0.1:1935/live/room1'', PublishUrl = ''rtmp://203.0.113.5/live/room1''\<rparr>,
                   \<lparr>PlayUrl = ''rtmp://203.0.113.5/live/room1'', PublishUrl = ''rtmp://127.0.0.1:1935/live/room1''\<rparr>],
        calls := [RelayStart 0, RelayStart 1]\<rparr>"

section \<open>Starting a relay twice\<close>

text \<open>
  C1, as the specification states it: a start request whose session key is already
  registered answers that a session exists and leaves the registered relay handle in
  place. The handlers never look the key up on the start path. On a server where
  \<^verbatim>\<open>push:live/room1\<close> is registered with worker 0, a second push start for live/room1
  registers the new worker 2 under the key.
\<close>

theorem duplicate_start_keeps_entry_counterexample:
  "session active_world ''push:live/room1'' = Some 0 \<and>
   \<not> (session (snd (handlePush example_env active_world
            (control_request ''start'' ''live'' ''room1'' ''rtmp://198.51.100.7/live/room1'')))
        ''push:live/room1'' = session active_world ''push:live/room1'')"
  by (simp add: handlePush_def NewRtmpRelay_def Get_def control_request_def active_world_def
      example_world_def example_env_def Let_def)

text \<open>
  C1, amended: a start request (push or pull) whose session key is already registered
  is handled like any other start. A new relay worker is built and started; the old
  worker is not stopped. If \<^verbatim>\<open>Start\<close> succeeds, the handler answers with the ordinary
  start confirmation and the key now holds the handle of the new worker, which differs
  from the old one; if \<^verbatim>\<open>Start\<close> fails, the handler answers with the error message and
  the registry, with the old handle, is unchanged.
\<close>

theorem duplicate_start_replaces_entry:
  assumes "ParseForm req = Some form"
    and "app = Get form ''app''" and "name = Get form ''name''" and "url = Get form ''url''"
    and "app \<noteq> []" and "name \<noteq> []" and "url \<noteq> []"
    and "Get form ''oper'' \<noteq> ''stop''"
    and "localurl = ''rtmp://127.0.0.1'' @ rtmpAddr s @ ''/'' @ app @ ''/'' @ name"
    and "p = length (relays s)"
  shows "(\<forall>old. session s (''push:'' @ app @ ''/'' @ name) = Some old \<and> old < p \<longrightarrow>
            calls (snd (handlePush e s req)) = calls s @ [RelayStart p] \<and>
            (Start e p \<lparr>PlayUrl = localurl, PublishUrl = url\<rparr> = None \<longrightarrow>
               Data (fst (handlePush e s req)) = Str (''<h1>push url start '' @ url @ '' ok</h1></br>'') \<and>
               session (snd (handlePush e s req)) (''push:'' @ app @ ''/'' @ name) = Some p \<and>
               p \<noteq> old) \<and>
            (\<forall>err. Start e p \<lparr>PlayUrl = localurl, PublishUrl = url\<rparr> = Some err \<longrightarrow>
               Data (fst (handlePush e s req)) = Str (''push error='' @ err) \<and>
               session (snd (handlePush e s req)) = session s)) \<and>
         (\<forall>old. session s (''pull:'' @ app @ ''/'' @ name) = Some old \<and> old < p \<longrightarrow>
            calls (snd (handlePull e s req)) = calls s @ [RelayStart p] \<and>
            (Start e p \<lparr>PlayUrl = url, PublishUrl = localurl\<rparr> = None \<longrightarrow>
               Data (fst (handlePull e s req)) = Str (''<h1>push url start '' @ url @ '' ok</h1></br>'') \<and>
               session (snd (handlePull e s req)) (''pull:'' @ app @ ''/'' @ name) = Some p \<and>
               p \<noteq> old) \<and>
            (\<forall>err. Start e p \<lparr>PlayUrl = url, PublishUrl = localurl\<rparr> = Some err \<longrightarrow>
               Data (fst (handlePull e s req)) = Str (''push error='' @ err) \<and>
               session (snd (handlePull e s req)) = session s))"
  using assms
  by (auto simp: handlePush_def handlePull_def NewRtmpRelay_def Let_def split: option.splits)

theorem duplicate_start_replaces_entry_witness:
  "session active_world ''push:live/room1'' = Some 0 \<and>
   session (snd (handlePush example_env active_world
       (control_request ''start'' ''live'' ''room1'' ''rtmp://198.51.100.7/live/room1'')))
     ''push:live/room1'' = Some 2 \<and>
   calls (snd (handlePush example_env active_world
       (control_request ''start'' ''live'' ''room1'' ''rtmp://198.51.100.7/live/room1''))) =
     [RelayStart 0, RelayStart 1, RelayStart 2] \<and>
   session active_world ''pull:live/room1'' = Some 1 \<and>
   Data (fst (handlePull failing_env active_world
       (control_request ''start'' ''live'' ''room1'' ''rtmp://198.51.100.7/live/room1''))) =
     Str ''push error=connection refused'' \<and>
   session (snd (handlePull failing_env active_world
       (control_request ''start'' ''live'' ''room1'' ''rtmp://198.51.100.7/live/room1''))) =
     session active_world"
proof -
  let ?url = "''rtmp://198.51.100.7/live/room1''"
  let ?req = "control_request ''start'' ''live'' ''room1'' ?url"
  let ?form = "[''oper'' \<mapsto> [''start''], ''app'' \<mapsto> [''live''], ''name'' \<mapsto> [''room1''], ''url'' \<mapsto> [?url]]"
  have a: "ParseForm ?req = Some ?form" by (simp add: control_request_def)
  have b: "''live'' = Get ?form ''app''" "''room1'' = Get ?form ''name''" "?url = Get ?form ''url''"
    "Get ?form ''oper'' \<noteq> ''stop''"
    by (simp_all add: Get_def)
  have c: "''rtmp://127.0.0.1:1935/live/room1'' =
      ''rtmp://127.0.0.1'' @ rtmpAddr active_world @ ''/'' @ ''live'' @ ''/'' @ ''room1''"
    "2 = length (relays active_world)"
    by (simp_all add: active_world_def example_world_def)
  have d: "Start example_env 2 r = None" "Start failing_env 2 r = Some ''connection refused''" for r
    by (simp_all add: example_env_def failing_env_def)
  have k: "session active_world ''push:live/room1'' = Some 0"
    "session active_world ''pull:live/room1'' = Some 1"
    "calls active_world = [RelayStart 0, RelayStart 1]"
    by (simp_all add: active_world_def example_world_def)
  from duplicate_start_replaces_entry [where req = ?req and form = ?form and s = active_world
      and e = example_env and p = 2, OF a b(1-3) _ _ _ b(4) c]
    duplicate_start_replaces_entry [where req = ?req and form = ?form and s = active_world
      and e = failing_env and p = 2, OF a b(1-3) _ _ _ b(4) c]
  show ?thesis
    by (simp add: d k)
qed

section \<open>Status codes of push and pull\<close>

text \<open>
  C2. The specification asks for a 400-class status exactly on a client input error.
  The push handler never changes the status from its initial 200, and the pull handler
  sets 400 on every path. On the example server: a pull start with all parameters
  present succeeds (the worker is registered, the payload is the confirmation) and
  carries status 400; a push request whose app is empty, and one whose form does not
  parse, carry status 200.
\<close>

theorem push_pull_status_on_examples:
  "fst (handlePull example_env example_world
       (control_request ''start'' ''live'' ''room1'' ''rtmp://203.0.113.5/live/room1'')) =
     \<lparr>Status = 400, Data = Str ''<h1>push url start rtmp://203.0.113.5/live/room1 ok</h1></br>''\<rparr> \<and>
   session (snd (handlePull example_env example_world
       (control_request ''start'' ''live'' ''room1'' ''rtmp://203.0.113.5/live/room1'')))
     ''pull:live/room1'' = Some 0 \<and>
   fst (handlePush example_env example_world
       (control_request ''start'' [] ''room1'' ''rtmp://203.0.113.5/live/room1'')) =
     \<lparr>Status = 200, Data = Str ''control push parameter error, please check them.''\<rparr> \<and>
   Status (fst (handlePush example_env example_world \<lparr>authorization = [], ParseForm = None\<rparr>)) = 200"
  by (simp add: handlePush_def handlePull_def NewRtmpRelay_def Get_def control_request_def
      example_world_def example_env_def Let_def)

section \<open>Start, stop, stop\<close>

text \<open>
  C3. For non-empty app and name: after a push start whose worker started, a push stop
  for the same app and name (every required parameter present) calls \<^verbatim>\<open>Stop\<close> on the
  registered worker, answers with the stop confirmation and leaves the registry without
  the key \<^verbatim>\<open>push:app/name\<close>; a second stop for that key answers with the message that the
  session key does not exist and changes nothing.
\<close>

theorem push_start_stop_stop:
  assumes "ParseForm req1 = Some f1"
    and "Get f1 ''app'' = app" and "Get f1 ''name'' = name" and "Get f1 ''url'' = url1"
    and "Get f1 ''oper'' \<noteq> ''stop''"
    and "app \<noteq> []" and "name \<noteq> []" and "url1 \<noteq> []"
    and "Start e (length (relays s))
           \<lparr>PlayUrl = ''rtmp://127.0.0.1'' @ rtmpAddr s @ ''/'' @ app @ ''/'' @ name, PublishUrl = url1\<rparr> = None"
    and "ParseForm req2 = Some f2"
    and "Get f2 ''app'' = app" and "Get f2 ''name'' = name" and "Get f2 ''url'' = url2"
    and "Get f2 ''oper'' = ''stop''" and "url2 \<noteq> []"
    and "ParseForm req3 = Some f3"
    and "Get f3 ''app'' = app" and "Get f3 ''name'' = name" and "Get f3 ''url'' \<noteq> []"
    and "Get f3 ''oper'' = ''stop''"
    and "s1 = snd (handlePush e s req1)"
    and "s2 = snd (handlePush e s1 req2)"
  shows "session s1 (''push:'' @ app @ ''/'' @ name) = Some (length (relays s)) \<and>
         fst (handlePush e s1 req2) =
           \<lparr>Status = 200, Data = Str (''<h1>push url stop '' @ url2 @ '' ok</h1></br>'')\<rparr> \<and>
         calls s2 = calls s @ [RelayStart (length (relays s)), RelayStop (length (relays s))] \<and>
         session s2 (''push:'' @ app @ ''/'' @ name) = None \<and>
         fst (handlePush e s2 req3) =
           \<lparr>Status = 200,
            Data = Str (''<h1>session key[push:'' @ app @ ''/'' @ name @ ''] not exist, please check it again.</h1>'')\<rparr> \<and>
         snd (handlePush e s2 req3) = s2"
proof -
  let ?key = "''push:'' @ app @ ''/'' @ name"
  let ?p = "length (relays s)"
  have s1: "s1 = s\<lparr>relays := relays s @
                     [\<lparr>PlayUrl = ''rtmp://127.0.0.1'' @ rtmpAddr s @ ''/'' @ app @ ''/'' @ name, PublishUrl = url1\<rparr>],
                   calls := calls s @ [RelayStart ?p],
                   session := (session s)(?key \<mapsto> ?p)\<rparr>"
    using assms(1-9,21)
    by (simp add: handlePush_def NewRtmpRelay_def Let_def)
  have r2: "handlePush e s1 req2 =
      (\<lparr>Status = 200, Data = Str (''<h1>push url stop '' @ url2 @ '' ok</h1></br>'')\<rparr>,
       s1\<lparr>session := (session s1)(?key := None), calls := calls s1 @ [RelayStop ?p]\<rparr>)"
    using assms(6,7,10-15) s1
    by (simp add: handlePush_def Let_def)
  have s2: "s2 = s1\<lparr>session := (session s1)(?key := None), calls := calls s1 @ [RelayStop ?p]\<rparr>"
    using r2 assms(22) by simp
  have r3: "handlePush e s2 req3 =
      (\<lparr>Status = 200,
        Data = Str (''<h1>session key['' @ ?key @ ''] not exist, please check it again.</h1>'')\<rparr>, s2)"
    using assms(6,7,16-20) s2
    by (simp add: handlePush_def Let_def)
  from s1 r2 s2 r3 show ?thesis by simp
qed

theorem push_start_stop_stop_witness:
  "session (snd (handlePush example_env
       (snd (handlePush example_env example_world
          (control_request ''start'' ''live'' ''room1'' ''rtmp://203.0.113.5/live/room1'')))
       (control_request ''stop'' ''live'' ''room1'' ''rtmp://203.0.113.5/live/room1'')))
     ''push:live/room1'' = None \<and>
   fst (handlePush example_env
       (snd (handlePush example_env
          (snd (handlePush example_env example_world
             (control_request ''start'' ''live'' ''room1'' ''rtmp://203.0.113.5/live/room1'')))
          (control_request ''stop'' ''live'' ''room1'' ''rtmp://203.0.113.5/live/room1'')))
       (control_request ''stop'' ''live'' ''room1'' ''rtmp://203.0.113.5/live/room1'')) =
     \<lparr>Status = 200,
      Data = Str ''<h1>session key[push:live/room1] not exist, please check it again.</h1>''\<rparr>"
proof -
  let ?url = "''rtmp://203.0.113.5/live/room1''"
  let ?start = "control_request ''start'' ''live'' ''room1'' ?url"
  let ?stop = "control_request ''stop'' ''live'' ''room1'' ?url"
  let ?f1 = "[''oper'' \<mapsto> [''start''], ''app'' \<mapsto> [''live''], ''name'' \<mapsto> [''room1''], ''url'' \<mapsto> [?url]]"
  let ?f2 = "[''oper'' \<mapsto> [''stop''], ''app'' \<mapsto> [''live''], ''name'' \<mapsto> [''room1''], ''url'' \<mapsto> [?url]]"
  have a1: "ParseForm ?start = Some ?f1" and a2: "ParseForm ?stop = Some ?f2"
    by (simp_all add: control_request_def)
  have b1: "Get ?f1 ''app'' = ''live''" "Get ?f1 ''name'' = ''room1''" "Get ?f1 ''url'' = ?url"
    "Get ?f1 ''oper'' \<noteq> ''stop''"
    by (simp_all add: Get_def)
  have b2: "Get ?f2 ''app'' = ''live''" "Get ?f2 ''name'' = ''room1''" "Get ?f2 ''url'' = ?url"
    "Get ?f2 ''oper'' = ''stop''" "Get ?f2 ''url'' \<noteq> []"
    by (simp_all add: Get_def)
  have c: "Start example_env (length (relays example_world))
      \<lparr>PlayUrl = ''rtmp://127.0.0.1'' @ rtmpAddr example_world @ ''/'' @ ''live'' @ ''/'' @ ''room1'',
       PublishUrl = ?url\<rparr> = None"
    by (simp add: example_env_def)
  have n: "''live'' \<noteq> []" "''room1'' \<noteq> []" "?url \<noteq> []" by simp_all
  from push_start_stop_stop [OF a1 b1(1-4) n c a2 b2(1-4) n(3) a2 b2(1,2,5,4) refl refl]
  show ?thesis by simp
qed

section \<open>Starting a relay\<close>

text \<open>
  C4. A start request (push or pull: every required parameter non-empty, \<open>oper\<close> not
  \<open>stop\<close>) builds a relay worker at the next free address and calls its \<^verbatim>\<open>Start\<close>. If
  \<^verbatim>\<open>Start\<close> returns an error, the handler answers with the error message and the session
  registry is left as it was; if \<^verbatim>\<open>Start\<close> succeeds, the handler answers with the
  confirmation string and the registry is the old one with exactly the session key
  mapped to the new worker.
\<close>

theorem relay_start_outcome:
  assumes "ParseForm req = Some form"
    and "app = Get form ''app''" and "name = Get form ''name''" and "url = Get form ''url''"
    and "app \<noteq> []" and "name \<noteq> []" and "url \<noteq> []"
    and "Get form ''oper'' \<noteq> ''stop''"
    and "localurl = ''rtmp://127.0.0.1'' @ rtmpAddr s @ ''/'' @ app @ ''/'' @ name"
    and "p = length (relays s)"
  shows "(\<forall>err. Start e p \<lparr>PlayUrl = localurl, PublishUrl = url\<rparr> = Some err \<longrightarrow>
            Data (fst (handlePush e s req)) = Str (''push error='' @ err) \<and>
            session (snd (handlePush e s req)) = session s) \<and>
         (Start e p \<lparr>PlayUrl = localurl, PublishUrl = url\<rparr> = None \<longrightarrow>
            Data (fst (handlePush e s req)) = Str (''<h1>push url start '' @ url @ '' ok</h1></br>'') \<and>
            session (snd (handlePush e s req)) = (session s)(''push:'' @ app @ ''/'' @ name \<mapsto> p)) \<and>
         (\<forall>err. Start e p \<lparr>PlayUrl = url, PublishUrl = localurl\<rparr> = Some err \<longrightarrow>
            Data (fst (handlePull e s req)) = Str (''push error='' @ err) \<and>
            session (snd (handlePull e s req)) = session s) \<and>
         (Start e p \<lparr>PlayUrl = url, PublishUrl = localurl\<rparr> = None \<longrightarrow>
            Data (fst (handlePull e s req)) = Str (''<h1>push url start '' @ url @ '' ok</h1></br>'') \<and>
            session (snd (handlePull e s req)) = (session s)(''pull:'' @ app @ ''/'' @ name \<mapsto> p))"
  using assms
  by (auto simp: handlePush_def handlePull_def NewRtmpRelay_def Let_def split: option.splits)

theorem relay_start_outcome_witness:
  "Data (fst (handlePush example_env example_world
       (control_request ''start'' ''live'' ''room1'' ''rtmp://203.0.113.5/live/room1''))) =
     Str ''<h1>push url start rtmp://203.0.113.5/live/room1 ok</h1></br>'' \<and>
   session (snd (handlePush example_env example_world
       (control_request ''start'' ''live'' ''room1'' ''rtmp://203.0.113.5/live/room1''))) =
     [''push:live/room1'' \<mapsto> 0] \<and>
   Data (fst (handlePull failing_env example_world
       (control_request ''start'' ''live'' ''room1'' ''rtmp://203.0.113.5/live/room1''))) =
     Str ''push error=connection refused'' \<and>
   session (snd (handlePull failing_env example_world
       (control_request ''start'' ''live'' ''room1'' ''rtmp://203.0.113.5/live/room1''))) = Map.empty"
proof -
  let ?req = "control_request ''start'' ''live'' ''room1'' ''rtmp://203.0.113.5/live/room1''"
  let ?form = "[''oper'' \<mapsto> [''start''], ''app'' \<mapsto> [''live''], ''name'' \<mapsto> [''room1''],
                ''url'' \<mapsto> [''rtmp://203.0.113.5/live/room1'']]"
  have a: "ParseForm ?req = Some ?form" by (simp add: control_request_def)
  have b: "''live'' = Get ?form ''app''" "''room1'' = Get ?form ''name''"
    "''rtmp://203.0.113.5/live/room1'' = Get ?form ''url''" "Get ?form ''oper'' \<noteq> ''stop''"
    by (simp_all add: Get_def)
  have c: "''rtmp://127.0.0.1:1935/live/room1'' =
      ''rtmp://127.0.0.1'' @ rtmpAddr example_world @ ''/'' @ ''live'' @ ''/'' @ ''room1''"
    "0 = length (relays example_world)"
    by (simp_all add: example_world_def)
  have d: "Start example_env 0 r = None" "Start failing_env 0 r = Some ''connection refused''" for r
    by (simp_all add: example_env_def failing_env_def)
  from relay_start_outcome [of ?req ?form "''live''" "''room1''" "''rtmp://203.0.113.5/live/room1''"
      "''rtmp://127.0.0.1:1935/live/room1''" example_world 0 example_env, OF a b(1-3) _ _ _ b(4) c]
    relay_start_outcome [of ?req ?form "''live''" "''room1''" "''rtmp://203.0.113.5/live/room1''"
      "''rtmp://127.0.0.1:1935/live/room1''" example_world 0 failing_env, OF a b(1-3) _ _ _ b(4) c]
  show ?thesis
    by (simp add: d example_world_def)
qed

section \<open>The static key gate\<close>

text \<open>
  C5. On every control or statistics route, a request whose authorization header
  differs from the configured key is answered with status 401 and the payload
  \<open>Unauthorized\<close>, and the state after the request is the state before it: the session
  registry, the relay workers, the room keys and the trace of collaborator calls are
  untouched, whatever the collaborators would have answered.
\<close>

theorem wrong_key_rejected:
  assumes "Header_Get_authorization r \<noteq> apiKey"
  shows "Serve e apiKey rt s r = Inr (\<lparr>Status = 401, Data = Str ''Unauthorized''\<rparr>, s)"
  using assms by (simp add: Serve_def checkAuth_def)

theorem wrong_key_rejected_witness:
  "Header_Get_authorization
     ((control_request ''start'' ''live'' ''room1'' ''rtmp://203.0.113.5/live/room1'')
        \<lparr>authorization := [''guess'']\<rparr>) \<noteq> ''secret'' \<and>
   Serve example_env ''secret'' ControlPush example_world
     ((control_request ''start'' ''live'' ''room1'' ''rtmp://203.0.113.5/live/room1'')
        \<lparr>authorization := [''guess'']\<rparr>) =
     Inr (\<lparr>Status = 401, Data = Str ''Unauthorized''\<rparr>, example_world)"
proof -
  let ?r = "(control_request ''start'' ''live'' ''room1'' ''rtmp://203.0.113.5/live/room1'')
        \<lparr>authorization := [''guess'']\<rparr>"
  have h: "Header_Get_authorization ?r \<noteq> ''secret''"
    by (simp add: Header_Get_authorization_def)
  from h wrong_key_rejected [OF h, of example_env ControlPush example_world]
  show ?thesis by simp
qed

text \<open>
  C10. When the configured key is the empty string, a request without an authorization
  header passes the gate: \<^verbatim>\<open>checkAuth\<close> writes nothing, and on each of the seven control
  and statistics routes the outcome of the request is the outcome of the route's own
  handler run on the request: \<^verbatim>\<open>handlePush\<close>, \<^verbatim>\<open>handlePull\<close>, \<^verbatim>\<open>handleGet\<close>,
  \<^verbatim>\<open>handleReset\<close>, \<^verbatim>\<open>handleDelete\<close>, \<^verbatim>\<open>GetLiveStatics\<close> and \<^verbatim>\<open>GetLiveStat\<close>.
\<close>

theorem empty_api_key_passes:
  assumes "authorization r = []"
  shows "checkAuth [] r = None \<and>
         Serve e [] ControlPush s r = Inr (handlePush e s r) \<and>
         Serve e [] ControlPull s r = Inr (handlePull e s r) \<and>
         Serve e [] ControlGet s r = Inr (handleGet e s r) \<and>
         Serve e [] ControlReset s r = Inr (handleReset e s r) \<and>
         Serve e [] ControlDelete s r = handleDelete e s r \<and>
         Serve e [] StatsLivestats s r = map_sum id (\<lambda>res. (res, s)) (GetLiveStatics s r) \<and>
         Serve e [] StatsLivestat s r = map_sum id (\<lambda>res. (res, s)) (GetLiveStat s r)"
proof -
  from assms have gate: "checkAuth [] r = None"
    by (simp add: checkAuth_def Header_Get_authorization_def)
  then have "Serve e [] rt s r = route_handler e rt s r" for rt
    by (simp add: Serve_def)
  with gate show ?thesis
    by (simp add: route_handler_def)
qed

theorem empty_api_key_passes_witness:
  "authorization (control_request ''start'' ''live'' ''room1'' ''rtmp://203.0.113.5/live/room1'') = [] \<and>
   authorization (room_request ''room1'') = [] \<and>
   Serve example_env [] ControlPush example_world
       (control_request ''start'' ''live'' ''room1'' ''rtmp://203.0.113.5/live/room1'') =
     Inr (\<lparr>Status = 200, Data = Str ''<h1>push url start rtmp://203.0.113.5/live/room1 ok</h1></br>''\<rparr>,
          example_world
            \<lparr>session := [''push:live/room1'' \<mapsto> 0],
             relays := [\<lparr>PlayUrl = ''rtmp://127.0.0.1:1935/live/room1'',
                         PublishUrl = ''rtmp://203.0.113.5/live/room1''\<rparr>],
             calls := [RelayStart 0]\<rparr>) \<and>
   Serve example_env [] ControlPull example_world
       (control_request ''start'' ''live'' ''room1'' ''rtmp://203.0.113.5/live/room1'') =
     Inr (\<lparr>Status = 400, Data = Str ''<h1>push url start rtmp://203.0.113.5/live/room1 ok</h1></br>''\<rparr>,
          example_world
            \<lparr>session := [''pull:live/room1'' \<mapsto> 0],
             relays := [\<lparr>PlayUrl = ''rtmp://203.0.113.5/live/room1'',
                         PublishUrl = ''rtmp://127.0.0.1:1935/live/room1''\<rparr>],
             calls := [RelayStart 0]\<rparr>) \<and>
   Serve example_env [] ControlGet example_world (room_request ''room1'') =
     Inr (\<lparr>Status = 400, Data = Str ''room does not exist''\<rparr>, example_world) \<and>
   Serve example_env [] ControlReset example_world (room_request ''room1'') =
     Inr (\<lparr>Status = 200, Data = Str ''k1''\<rparr>, example_world\<lparr>roomKeys := [''room1'' \<mapsto> ''k1'']\<rparr>) \<and>
   Serve example_env [] ControlDelete example_world (room_request ''room1'') =
     Inr (\<lparr>Status = 404, Data = Str ''room not found''\<rparr>,
          example_world\<lparr>calls := [TransStop ''live/room1'', CloseAndComplete ''live/room1'']\<rparr>) \<and>
   Serve example_env [] StatsLivestats example_world (room_request ''room1'') =
     Inr (\<lparr>Status = 200,
           Data = Streams \<lparr>Publishers = [publisher_entry ''live/room1'' example_reader],
                           Players = [player_entry ''live/room1'' example_writer]\<rparr>\<rparr>,
          example_world) \<and>
   Serve example_env [] StatsLivestat example_world (room_request ''room1'') =
     Inr (\<lparr>Status = 200, Data = OneStream (publisher_entry ''live/room1'' example_reader)\<rparr>,
          example_world)"
proof -
  let ?c = "control_request ''start'' ''live'' ''room1'' ''rtmp://203.0.113.5/live/room1''"
  let ?q = "room_request ''room1''"
  have hc: "authorization ?c = []" by (simp add: control_request_def)
  have hq: "authorization ?q = []" by (simp add: room_request_def)
  have push: "handlePush example_env example_world ?c =
     (\<lparr>Status = 200, Data = Str ''<h1>push url start rtmp://203.0.113.5/live/room1 ok</h1></br>''\<rparr>,
      example_world
        \<lparr>session := [''push:live/room1'' \<mapsto> 0],
         relays := [\<lparr>PlayUrl = ''rtmp://127.0.0.1:1935/live/room1'',
                     PublishUrl = ''rtmp://203.0.113.5/live/room1''\<rparr>],
         calls := [RelayStart 0]\<rparr>)"
    by (simp add: handlePush_def NewRtmpRelay_def Get_def control_request_def
        example_world_def example_env_def Let_def)
  have pull: "handlePull example_env example_world ?c =
     (\<lparr>Status = 400, Data = Str ''<h1>push url start rtmp://203.0.113.5/live/room1 ok</h1></br>''\<rparr>,
      example_world
        \<lparr>session := [''pull:live/room1'' \<mapsto> 0],
         relays := [\<lparr>PlayUrl = ''rtmp://203.0.113.5/live/room1'',
                     PublishUrl = ''rtmp://127.0.0.1:1935/live/room1''\<rparr>],
         calls := [RelayStart 0]\<rparr>)"
    by (simp add: handlePull_def NewRtmpRelay_def Get_def control_request_def
        example_world_def example_env_def Let_def)
  have get: "handleGet example_env example_world ?q =
     (\<lparr>Status = 400, Data = Str ''room does not exist''\<rparr>, example_world)"
    by (simp add: handleGet_def Get_def room_request_def example_world_def example_env_def Let_def)
  have reset: "handleReset example_env example_world ?q =
     (\<lparr>Status = 200, Data = Str ''k1''\<rparr>, example_world\<lparr>roomKeys := [''room1'' \<mapsto> ''k1'']\<rparr>)"
    by (simp add: handleReset_def Get_def room_request_def example_world_def example_env_def Let_def)
  have delete: "handleDelete example_env example_world ?q =
     Inr (\<lparr>Status = 404, Data = Str ''room not found''\<rparr>,
          example_world\<lparr>calls := [TransStop ''live/room1'', CloseAndComplete ''live/room1'']\<rparr>)"
    by (simp add: handleDelete_def GetStream_def Get_def room_request_def example_world_def
        example_streams_def example_env_def Let_def)
  have stats: "GetLiveStatics example_world ?q =
     Inr \<lparr>Status = 200,
          Data = Streams \<lparr>Publishers = [publisher_entry ''live/room1'' example_reader],
                          Players = [player_entry ''live/room1'' example_writer]\<rparr>\<rparr>"
    by (simp add: GetLiveStatics_def example_world_def example_streams_def
        publisher_entry_def player_entry_def)
  have stat: "GetLiveStat example_world ?q =
     Inr \<lparr>Status = 200, Data = OneStream (publisher_entry ''live/room1'' example_reader)\<rparr>"
    by (simp add: GetLiveStat_def GetStream_def Get_def room_request_def example_world_def
        example_streams_def publisher_entry_def Let_def)
  from empty_api_key_passes [OF hc, of example_env example_world]
    empty_api_key_passes [OF hq, of example_env example_world]
    hc hq push pull get reset delete stats stat
  show ?thesis by simp
qed

section \<open>The statistics of all streams\<close>

text \<open>What the two loops collect, as sets: the entries given plus one per virtual endpoint.\<close>

lemma set_Range_publishers:
  "set (Range_publishers xs msgs) =
     set msgs \<union> {publisher_entry key v | key st v.
                   (key, IsStream st) \<in> set xs \<and> GetReader st = Some (IsVirReader v)}"
proof (induction xs arbitrary: msgs)
  case Nil
  then show ?case by simp
next
  case (Cons x xs)
  obtain key val where x: "x = (key, val)" by (cases x)
  show ?case
  proof (cases val)
    case OtherStreamsValue
    with x Cons show ?thesis by auto
  next
    case (IsStream st)
    show ?thesis
    proof (cases "GetReader st")
      case None
      with x IsStream Cons show ?thesis by auto
    next
      case (Some rd)
      with x IsStream Cons show ?thesis
        by (cases rd) (auto simp: publisher_entry_def)
    qed
  qed
qed

lemma set_Range_ws:
  "set (Range_ws key ws msgs) =
     set msgs \<union> {player_entry key w | k w.
                   (k, IsPackWriterCloser (Some (IsVirWriter w))) \<in> set ws}"
proof (induction ws arbitrary: msgs)
  case Nil
  then show ?case by simp
next
  case (Cons x ws)
  obtain k v where x: "x = (k, v)" by (cases x)
  show ?case
  proof (cases v)
    case OtherWsValue
    with x Cons show ?thesis by auto
  next
    case (IsPackWriterCloser pw)
    show ?thesis
    proof (cases pw)
      case None
      with x IsPackWriterCloser Cons show ?thesis by auto
    next
      case (Some wr)
      with x IsPackWriterCloser Cons show ?thesis
        by (cases wr) (auto simp: player_entry_def)
    qed
  qed
qed

lemma set_Range_players:
  "Range_players xs msgs = Inr out \<Longrightarrow>
   set out =
     set msgs \<union> {player_entry key w | key st k w.
                   (key, IsStream st) \<in> set xs \<and>
                   (k, IsPackWriterCloser (Some (IsVirWriter w))) \<in> set (GetWs st)}"
proof (induction xs arbitrary: msgs)
  case Nil
  then show ?case by simp
next
  case (Cons x xs)
  obtain key val where x: "x = (key, val)" by (cases x)
  show ?case
  proof (cases val)
    case OtherStreamsValue
    with x Cons.prems show ?thesis by simp
  next
    case (IsStream st)
    with x Cons.prems have "Range_players xs (Range_ws key (GetWs st) msgs) = Inr out"
      by simp
    from Cons.IH [OF this] x IsStream show ?thesis
      by (auto simp: set_Range_ws)
  qed
qed

lemma Range_players_returns:
  "\<forall>kv \<in> set xs. snd kv \<noteq> OtherStreamsValue \<Longrightarrow> \<exists>out. Range_players xs msgs = Inr out"
proof (induction xs arbitrary: msgs)
  case Nil
  then show ?case by simp
next
  case (Cons x xs)
  obtain key val where x: "x = (key, val)" by (cases x)
  with Cons.prems obtain st where "val = IsStream st" by (cases val) auto
  with x Cons show ?case by simp
qed

text \<open>
  C6. When the server's handler is an RTMP stream registry, every response of
  \<^verbatim>\<open>GetLiveStatics\<close> has status 200 and a payload in which each publishers entry is the
  entry of a registered stream whose reader is a virtual reader, and each players entry
  is the entry of a writer of a registered stream that is a virtual writer. Streams and
  writers of any other kind add nothing and raise nothing: when every value of the
  registry is a stream, the handler does answer, with status 200.
\<close>

theorem GetLiveStatics_only_virtual:
  assumes "handler s = IsRtmpStream (Some rs)"
  shows "(\<forall>res. GetLiveStatics s req = Inr res \<longrightarrow>
            (\<exists>out. res = \<lparr>Status = 200, Data = Streams out\<rparr> \<and>
               (\<forall>m \<in> set (Publishers out). \<exists>key st v.
                   (key, IsStream st) \<in> set (GetStreams rs) \<and>
                   GetReader st = Some (IsVirReader v) \<and> m = publisher_entry key v) \<and>
               (\<forall>m \<in> set (Players out). \<exists>key st k w.
                   (key, IsStream st) \<in> set (GetStreams rs) \<and>
                   (k, IsPackWriterCloser (Some (IsVirWriter w))) \<in> set (GetWs st) \<and>
                   m = player_entry key w))) \<and>
         ((\<forall>kv \<in> set (GetStreams rs). snd kv \<noteq> OtherStreamsValue) \<longrightarrow>
            (\<exists>res. GetLiveStatics s req = Inr res \<and> Status res = 200))"
proof (intro conjI allI impI)
  fix res
  assume r: "GetLiveStatics s req = Inr res"
  with assms obtain players where p: "Range_players (GetStreams rs) [] = Inr players"
    and res: "res = \<lparr>Status = 200, Data = Streams
        \<lparr>Publishers = Range_publishers (GetStreams rs) [], Players = players\<rparr>\<rparr>"
    by (auto simp: GetLiveStatics_def Let_def split: sum.splits)
  from set_Range_players [OF p] set_Range_publishers [of "GetStreams rs" "[]"] res
  show "\<exists>out. res = \<lparr>Status = 200, Data = Streams out\<rparr> \<and>
               (\<forall>m \<in> set (Publishers out). \<exists>key st v.
                   (key, IsStream st) \<in> set (GetStreams rs) \<and>
                   GetReader st = Some (IsVirReader v) \<and> m = publisher_entry key v) \<and>
               (\<forall>m \<in> set (Players out). \<exists>key st k w.
                   (key, IsStream st) \<in> set (GetStreams rs) \<and>
                   (k, IsPackWriterCloser (Some (IsVirWriter w))) \<in> set (GetWs st) \<and>
                   m = player_entry key w)"
    by auto
next
  assume "\<forall>kv \<in> set (GetStreams rs). snd kv \<noteq> OtherStreamsValue"
  from Range_players_returns [OF this, of "[]"] assms
  show "\<exists>res. GetLiveStatics s req = Inr res \<and> Status res = 200"
    by (auto simp: GetLiveStatics_def Let_def)
qed

theorem GetLiveStatics_only_virtual_witness:
  "handler example_world = IsRtmpStream (Some example_streams) \<and>
   (\<exists>res. GetLiveStatics example_world (room_request []) = Inr res \<and> Status res = 200) \<and>
   GetLiveStatics example_world (room_request []) =
     Inr \<lparr>Status = 200,
          Data = Streams \<lparr>Publishers = [publisher_entry ''live/room1'' example_reader],
                          Players = [player_entry ''live/room1'' example_writer]\<rparr>\<rparr>"
proof -
  have h: "handler example_world = IsRtmpStream (Some example_streams)"
    by (simp add: example_world_def)
  have v: "\<forall>kv \<in> set (GetStreams example_streams). snd kv \<noteq> OtherStreamsValue"
    by (simp add: example_streams_def)
  have r: "GetLiveStatics example_world (room_request []) =
     Inr \<lparr>Status = 200,
          Data = Streams \<lparr>Publishers = [publisher_entry ''live/room1'' example_reader],
                          Players = [player_entry ''live/room1'' example_writer]\<rparr>\<rparr>"
    by (simp add: GetLiveStatics_def h example_streams_def publisher_entry_def player_entry_def)
  from GetLiveStatics_only_virtual [OF h, of "room_request []"] v
  have "\<exists>res. GetLiveStatics example_world (room_request []) = Inr res \<and> Status res = 200"
    by blast
  with h r show ?thesis by simp
qed

section \<open>The statistics of one room\<close>

text \<open>
  C7. When the server's handler is an RTMP stream registry and the form parses,
  \<^verbatim>\<open>GetLiveStat\<close> for room r looks up the key \<^verbatim>\<open>live/r\<close> and answers: 404 and
  \<open>No room was found\<close> when the registry has no stream for the key; 500 and
  \<open>This room has no readers\<close> when the stream has no reader; 500 and the message that
  the reader was not the virtual reader when the reader is of another kind; and
  otherwise 200 with the one publisher entry of the key and the virtual reader.
\<close>

theorem GetLiveStat_cases:
  assumes "handler s = IsRtmpStream (Some rs)"
    and "ParseForm req = Some form"
    and "key = ''live/'' @ Get form ''room''"
  shows "(GetStream rs key = None \<longrightarrow>
            GetLiveStat s req = Inr \<lparr>Status = 404, Data = Str ''No room was found''\<rparr>) \<and>
         (\<forall>st. GetStream rs key = Some st \<longrightarrow>
            (GetReader st = None \<longrightarrow>
               GetLiveStat s req = Inr \<lparr>Status = 500, Data = Str ''This room has no readers''\<rparr>) \<and>
            (GetReader st = Some OtherReadCloser \<longrightarrow>
               GetLiveStat s req =
                 Inr \<lparr>Status = 500, Data = Str ''Reader returned by RTMP stream was not virtual reader.''\<rparr>) \<and>
            (\<forall>v. GetReader st = Some (IsVirReader v) \<longrightarrow>
               GetLiveStat s req = Inr \<lparr>Status = 200, Data = OneStream (publisher_entry key v)\<rparr>))"
  using assms by (simp add: GetLiveStat_def Let_def publisher_entry_def)

theorem GetLiveStat_cases_witness:
  "GetLiveStat example_world (room_request ''room9'') =
     Inr \<lparr>Status = 404, Data = Str ''No room was found''\<rparr> \<and>
   GetLiveStat example_world (room_request ''room2'') =
     Inr \<lparr>Status = 500, Data = Str ''This room has no readers''\<rparr> \<and>
   GetLiveStat example_world (room_request ''room3'') =
     Inr \<lparr>Status = 500, Data = Str ''Reader returned by RTMP stream was not virtual reader.''\<rparr> \<and>
   GetLiveStat example_world (room_request ''room1'') =
     Inr \<lparr>Status = 200, Data = OneStream (publisher_entry ''live/room1'' example_reader)\<rparr>"
proof -
  have h: "handler example_world = IsRtmpStream (Some example_streams)"
    by (simp add: example_world_def)
  have f: "ParseForm (room_request room) = Some [''room'' \<mapsto> [room]]" for room
    by (simp add: room_request_def)
  have k: "''live/'' @ room = ''live/'' @ Get [''room'' \<mapsto> [room]] ''room''" for room
    by (simp add: Get_def)
  have g9: "GetStream example_streams (''live/'' @ ''room9'') = None"
    by (simp add: GetStream_def example_streams_def)
  have g2: "GetStream example_streams (''live/'' @ ''room2'') = Some \<lparr>GetReader = None, GetWs = []\<rparr>"
    by (simp add: GetStream_def example_streams_def)
  have g3: "GetStream example_streams (''live/'' @ ''room3'') =
      Some \<lparr>GetReader = Some OtherReadCloser, GetWs = []\<rparr>"
    by (simp add: GetStream_def example_streams_def)
  have g1: "\<exists>ws. GetStream example_streams (''live/'' @ ''room1'') =
      Some \<lparr>GetReader = Some (IsVirReader example_reader), GetWs = ws\<rparr>"
    by (simp add: GetStream_def example_streams_def)
  from GetLiveStat_cases [OF h f k, of "''room9''"] g9
  have r9: "GetLiveStat example_world (room_request ''room9'') =
     Inr \<lparr>Status = 404, Data = Str ''No room was found''\<rparr>"
    by simp
  from GetLiveStat_cases [OF h f k, of "''room2''"] g2
  have r2: "GetLiveStat example_world (room_request ''room2'') =
     Inr \<lparr>Status = 500, Data = Str ''This room has no readers''\<rparr>"
    by simp
  from GetLiveStat_cases [OF h f k, of "''room3''"] g3
  have r3: "GetLiveStat example_world (room_request ''room3'') =
     Inr \<lparr>Status = 500, Data = Str ''Reader returned by RTMP stream was not virtual reader.''\<rparr>"
    by simp
  from GetLiveStat_cases [OF h f k, of "''room1''"] g1
  have r1: "GetLiveStat example_world (room_request ''room1'') =
     Inr \<lparr>Status = 200, Data = OneStream (publisher_entry ''live/room1'' example_reader)\<rparr>"
    by auto
  from r9 r2 r3 r1 show ?thesis by simp
qed

section \<open>The URLs of a relay\<close>

text \<open>
  C8. For a start request with non-empty app, name and url, the local URL is
  \<^verbatim>\<open>rtmp://127.0.0.1\<close> followed by the configured RTMP address, a slash, the app, a
  slash and the name. The push handler builds its relay with the local URL as source
  and the request's url as target; the pull handler builds it with the request's url
  as source and the local URL as target.
\<close>

theorem relay_urls:
  assumes "ParseForm req = Some form"
    and "app = Get form ''app''" and "name = Get form ''name''" and "url = Get form ''url''"
    and "app \<noteq> []" and "name \<noteq> []" and "url \<noteq> []"
    and "Get form ''oper'' \<noteq> ''stop''"
  shows "relays (snd (handlePush e s req)) =
           relays s @ [\<lparr>PlayUrl = ''rtmp://127.0.0.1'' @ rtmpAddr s @ ''/'' @ app @ ''/'' @ name,
                         PublishUrl = url\<rparr>] \<and>
         relays (snd (handlePull e s req)) =
           relays s @ [\<lparr>PlayUrl = url,
                         PublishUrl = ''rtmp://127.0.0.1'' @ rtmpAddr s @ ''/'' @ app @ ''/'' @ name\<rparr>]"
  using assms
  by (auto simp: handlePush_def handlePull_def NewRtmpRelay_def Let_def split: option.splits)

theorem relay_urls_witness:
  "relays (snd (handlePush example_env example_world
       (control_request ''start'' ''live'' ''room1'' ''rtmp://203.0.113.5/live/room1''))) =
     [\<lparr>PlayUrl = ''rtmp://127.0.0.1:1935/live/room1'', PublishUrl = ''rtmp://203.0.113.5/live/room1''\<rparr>] \<and>
   relays (snd (handlePull example_env example_world
       (control_request ''start'' ''live'' ''room1'' ''rtmp://203.0.113.5/live/room1''))) =
     [\<lparr>PlayUrl = ''rtmp://203.0.113.5/live/room1'', PublishUrl = ''rtmp://127.0.0.1:1935/live/room1''\<rparr>]"
proof -
  let ?req = "control_request ''start'' ''live'' ''room1'' ''rtmp://203.0.113.5/live/room1''"
  let ?form = "[''oper'' \<mapsto> [''start''], ''app'' \<mapsto> [''live''], ''name'' \<mapsto> [''room1''],
                ''url'' \<mapsto> [''rtmp://203.0.113.5/live/room1'']]"
  have a: "ParseForm ?req = Some ?form" by (simp add: control_request_def)
  have b: "''live'' = Get ?form ''app''" "''room1'' = Get ?form ''name''"
    "''rtmp://203.0.113.5/live/room1'' = Get ?form ''url''" "Get ?form ''oper'' \<noteq> ''stop''"
    by (simp_all add: Get_def)
  from relay_urls [of ?req ?form "''live''" "''room1''" "''rtmp://203.0.113.5/live/room1''"
      example_env example_world, OF a b(1-3) _ _ _ b(4)]
  show ?thesis
    by (simp add: example_world_def)
qed

section \<open>The oper parameter\<close>

text \<open>
  C9. With non-empty app, name and url, every value of \<open>oper\<close> other than the exact
  string \<open>stop\<close> (also the empty string of a missing parameter) takes the start path of
  the push and of the pull handler: one relay worker is built, its \<^verbatim>\<open>Start\<close> is called
  and, when that succeeds, the worker is registered under the session key. The value is
  never checked further: the outcome is the one of the same request with \<open>oper=start\<close>.
\<close>

theorem oper_other_than_stop_starts:
  assumes "ParseForm req = Some form"
    and "app = Get form ''app''" and "name = Get form ''name''"
    and "app \<noteq> []" and "name \<noteq> []" and "Get form ''url'' \<noteq> []"
    and "Get form ''oper'' \<noteq> ''stop''"
    and "p = length (relays s)"
  shows "length (relays (snd (handlePush e s req))) = Suc p \<and>
         calls (snd (handlePush e s req)) = calls s @ [RelayStart p] \<and>
         (Start e p (relays (snd (handlePush e s req)) ! p) = None \<longrightarrow>
            session (snd (handlePush e s req)) (''push:'' @ app @ ''/'' @ name) = Some p) \<and>
         handlePush e s (req\<lparr>ParseForm := Some (form(''oper'' \<mapsto> [''start'']))\<rparr>) = handlePush e s req \<and>
         length (relays (snd (handlePull e s req))) = Suc p \<and>
         calls (snd (handlePull e s req)) = calls s @ [RelayStart p] \<and>
         (Start e p (relays (snd (handlePull e s req)) ! p) = None \<longrightarrow>
            session (snd (handlePull e s req)) (''pull:'' @ app @ ''/'' @ name) = Some p) \<and>
         handlePull e s (req\<lparr>ParseForm := Some (form(''oper'' \<mapsto> [''start'']))\<rparr>) = handlePull e s req"
proof -
  have g: "Get (form(''oper'' \<mapsto> [''start''])) k = (if k = ''oper'' then ''start'' else Get form k)" for k
    by (simp add: Get_def)
  have push: "handlePush e s (req\<lparr>ParseForm := Some (form(''oper'' \<mapsto> [''start'']))\<rparr>) = handlePush e s req"
    using assms by (simp add: handlePush_def g Let_def)
  have pull: "handlePull e s (req\<lparr>ParseForm := Some (form(''oper'' \<mapsto> [''start'']))\<rparr>) = handlePull e s req"
    using assms by (simp add: handlePull_def g Let_def)
  have rest_push: "length (relays (snd (handlePush e s req))) = Suc p \<and>
         calls (snd (handlePush e s req)) = calls s @ [RelayStart p] \<and>
         (Start e p (relays (snd (handlePush e s req)) ! p) = None \<longrightarrow>
            session (snd (handlePush e s req)) (''push:'' @ app @ ''/'' @ name) = Some p)"
    using assms
    by (auto simp: handlePush_def NewRtmpRelay_def Let_def split: option.splits)
  have rest_pull: "length (relays (snd (handlePull e s req))) = Suc p \<and>
         calls (snd (handlePull e s req)) = calls s @ [RelayStart p] \<and>
         (Start e p (relays (snd (handlePull e s req)) ! p) = None \<longrightarrow>
            session (snd (handlePull e s req)) (''pull:'' @ app @ ''/'' @ name) = Some p)"
    using assms
    by (auto simp: handlePull_def NewRtmpRelay_def Let_def split: option.splits)
  from push pull rest_push rest_pull show ?thesis by blast
qed

theorem oper_other_than_stop_starts_witness:
  "calls (snd (handlePush example_env example_world
       \<lparr>authorization = [],
        ParseForm = Some [''app'' \<mapsto> [''live''], ''name'' \<mapsto> [''room1''],
                          ''url'' \<mapsto> [''rtmp://203.0.113.5/live/room1'']]\<rparr>)) = [RelayStart 0] \<and>
   session (snd (handlePush example_env example_world
       \<lparr>authorization = [],
        ParseForm = Some [''app'' \<mapsto> [''live''], ''name'' \<mapsto> [''room1''],
                          ''url'' \<mapsto> [''rtmp://203.0.113.5/live/room1'']]\<rparr>)) ''push:live/room1'' = Some 0 \<and>
   calls (snd (handlePull example_env example_world
       (control_request ''halt'' ''live'' ''room1'' ''rtmp://203.0.113.5/live/room1''))) = [RelayStart 0] \<and>
   session (snd (handlePull example_env example_world
       (control_request ''halt'' ''live'' ''room1'' ''rtmp://203.0.113.5/live/room1''))) ''pull:live/room1'' = Some 0"
proof -
  let ?form1 = "[''app'' \<mapsto> [''live''], ''name'' \<mapsto> [''room1''],
                 ''url'' \<mapsto> [''rtmp://203.0.113.5/live/room1'']]"
  let ?req1 = "\<lparr>authorization = [], ParseForm = Some ?form1\<rparr>"
  let ?form2 = "[''oper'' \<mapsto> [''halt''], ''app'' \<mapsto> [''live''], ''name'' \<mapsto> [''room1''],
                 ''url'' \<mapsto> [''rtmp://203.0.113.5/live/room1'']]"
  let ?req2 = "control_request ''halt'' ''live'' ''room1'' ''rtmp://203.0.113.5/live/room1''"
  have a1: "ParseForm ?req1 = Some ?form1" by simp
  have b1: "''live'' = Get ?form1 ''app''" "''room1'' = Get ?form1 ''name''"
    "Get ?form1 ''url'' \<noteq> []" "Get ?form1 ''oper'' \<noteq> ''stop''"
    by (simp_all add: Get_def)
  have a2: "ParseForm ?req2 = Some ?form2" by (simp add: control_request_def)
  have b2: "''live'' = Get ?form2 ''app''" "''room1'' = Get ?form2 ''name''"
    "Get ?form2 ''url'' \<noteq> []" "Get ?form2 ''oper'' \<noteq> ''stop''"
    by (simp_all add: Get_def)
  have c: "0 = length (relays example_world)" by (simp add: example_world_def)
  have d: "Start example_env 0 r = None" for r by (simp add: example_env_def)
  from oper_other_than_stop_starts [where req = ?req1 and form = ?form1 and s = example_world and e = example_env,
      OF a1 b1(1,2) _ _ b1(3,4) c]
    oper_other_than_stop_starts [where req = ?req2 and form = ?form2 and s = example_world and e = example_env,
      OF a2 b2(1,2) _ _ b2(3,4) c]
  show ?thesis
    by (simp add: d example_world_def)
qed

end
